theory Spec2Isabelle
  imports Main
begin

section \<open>JavaScript values\<close>

text \<open>
  The strategy is JavaScript: every value it touches is dynamically typed. A value is
  one of the primitives, an array or a plain data object. An object keeps its
  properties in insertion order, as an association list whose first binding of a key
  is the one that counts. Numbers are the integral ones (array lengths, loop counters,
  numeric identifiers); fractions, NaN as a stored value and the infinities are not
  part of the value space. Strings are ASCII, so that the length of the character list
  is the JavaScript \<^verbatim>\<open>length\<close>.
\<close>

datatype jsval =
    JUndefined
  | JNull
  | JBool bool
  | JNum int
  | JStr string
  | JArr "jsval list"
  | JObj "(string \<times> jsval) list"

type_synonym obj = "(string \<times> jsval) list"

text \<open>The exceptions the code can raise: a property read on \<^verbatim>\<open>undefined\<close> or
  \<^verbatim>\<open>null\<close>, and the failure of \<^verbatim>\<open>JSON.parse\<close>.\<close>

datatype exn = TypeError | SyntaxError

definition andThen :: "exn + 'a \<Rightarrow> ('a \<Rightarrow> exn + 'b) \<Rightarrow> exn + 'b" where
  "andThen r f = (case r of Inl e \<Rightarrow> Inl e | Inr x \<Rightarrow> f x)"

text \<open>ToBoolean.\<close>

fun truthy :: "jsval \<Rightarrow> bool" where
  "truthy JUndefined = False"
| "truthy JNull = False"
| "truthy (JBool b) = b"
| "truthy (JNum n) = (n \<noteq> 0)"
| "truthy (JStr s) = (s \<noteq> [])"
| "truthy (JArr xs) = True"
| "truthy (JObj kvs) = True"

text \<open>\<^verbatim>\<open>a || b\<close>\<close>

definition js_or :: "jsval \<Rightarrow> jsval \<Rightarrow> jsval" where
  "js_or a b = (if truthy a then a else b)"

text \<open>Decimal notation of a natural number.\<close>

fun dec :: "nat \<Rightarrow> string" where
  "dec n = (if n < 10 then [''0123456789'' ! n]
            else dec (n div 10) @ [''0123456789'' ! (n mod 10)])"

declare dec.simps [simp del]

fun commas :: "string list \<Rightarrow> string" where
  "commas [] = []"
| "commas [x] = x"
| "commas (x # y # ys) = x @ '','' @ commas (y # ys)"

text \<open>ToString, as string concatenation with \<^verbatim>\<open>+\<close> and \<^verbatim>\<open>JSON.parse\<close> apply it to
  their operands: an array prints its elements separated by commas, with
  \<^verbatim>\<open>undefined\<close> and \<^verbatim>\<open>null\<close> elements left empty.\<close>

fun to_string :: "jsval \<Rightarrow> string" where
  "to_string JUndefined = ''undefined''"
| "to_string JNull = ''null''"
| "to_string (JBool b) = (if b then ''true'' else ''false'')"
| "to_string (JNum n) = (if n < 0 then ''-'' @ dec (nat (- n)) else dec (nat n))"
| "to_string (JStr s) = s"
| "to_string (JArr xs) =
     commas (map (\<lambda>x. case x of JUndefined \<Rightarrow> [] | JNull \<Rightarrow> [] | _ \<Rightarrow> to_string x) xs)"
| "to_string (JObj kvs) = ''[object Object]''"

text \<open>ToNumber, with \<open>None\<close> for NaN. A string converts when it is empty or a run of
  decimal digits; the other numeric notations denote no number of this value space.\<close>

definition digit_of :: "char \<Rightarrow> nat" where
  "digit_of c = length (takeWhile (\<lambda>d. d \<noteq> c) ''0123456789'')"

definition str_to_number :: "string \<Rightarrow> int option" where
  "str_to_number s =
     (if list_all (\<lambda>c. c \<in> set ''0123456789'') s
      then Some (int (foldl (\<lambda>a c. 10 * a + digit_of c) 0 s))
      else None)"

fun to_number :: "jsval \<Rightarrow> int option" where
  "to_number JUndefined = None"
| "to_number JNull = Some 0"
| "to_number (JBool b) = Some (if b then 1 else 0)"
| "to_number (JNum n) = Some n"
| "to_number (JStr s) = str_to_number s"
| "to_number (JArr xs) = str_to_number (to_string (JArr xs))"
| "to_number (JObj kvs) = None"

text \<open>\<^verbatim>\<open>a < b\<close> on numbers: false as soon as one side is NaN.\<close>

fun num_lt :: "int option \<Rightarrow> int option \<Rightarrow> bool" where
  "num_lt (Some a) (Some b) = (a < b)"
| "num_lt _ _ = False"

subsection \<open>Property access\<close>

definition obj_get :: "obj \<Rightarrow> string \<Rightarrow> jsval" where
  "obj_get ob k = (case map_of ob k of None \<Rightarrow> JUndefined | Some v \<Rightarrow> v)"

text \<open>Assignment to a property keeps the place of a key that is already there and
  appends a new one.\<close>

fun obj_set :: "obj \<Rightarrow> string \<Rightarrow> jsval \<Rightarrow> obj" where
  "obj_set [] k v = [(k, v)]"
| "obj_set (p # ps) k v = (if fst p = k then (k, v) # ps else p # obj_set ps k v)"

text \<open>\<^verbatim>\<open>v.k\<close> for a property name \<open>k\<close> that is not an array index. The names the code
  reads are data names and \<^verbatim>\<open>length\<close>; inherited members of the built-in prototypes
  are none of them.\<close>

fun js_get :: "jsval \<Rightarrow> string \<Rightarrow> exn + jsval" where
  "js_get JUndefined k = Inl TypeError"
| "js_get JNull k = Inl TypeError"
| "js_get (JObj kvs) k = Inr (obj_get kvs k)"
| "js_get (JArr xs) k = Inr (if k = ''length'' then JNum (int (length xs)) else JUndefined)"
| "js_get (JStr s) k = Inr (if k = ''length'' then JNum (int (length s)) else JUndefined)"
| "js_get (JBool b) k = Inr JUndefined"
| "js_get (JNum n) k = Inr JUndefined"

text \<open>\<^verbatim>\<open>v[i]\<close> for a non-negative integer \<open>i\<close>.\<close>

fun js_index :: "jsval \<Rightarrow> nat \<Rightarrow> exn + jsval" where
  "js_index JUndefined i = Inl TypeError"
| "js_index JNull i = Inl TypeError"
| "js_index (JArr xs) i = Inr (if i < length xs then xs ! i else JUndefined)"
| "js_index (JStr s) i = Inr (if i < length s then JStr [s ! i] else JUndefined)"
| "js_index (JObj kvs) i = Inr (obj_get kvs (dec i))"
| "js_index (JBool b) i = Inr JUndefined"
| "js_index (JNum n) i = Inr JUndefined"

section \<open>Calls into the collaborators\<close>

text \<open>
  Modelled from the spec: the constructor \<^verbatim>\<open>APIError\<close> of the module
  \<^verbatim>\<open>./errors/apierror\<close>, which is not among the source files. By the spec it is an
  error value with two fields, the \<^verbatim>\<open>message\<close> and the \<^verbatim>\<open>code\<close> it is constructed
  from.

  The other two errors handed to the completion callback are \<open>InternalOAuthError\<close>, the
  error type of the OAuth library (a message and the error it wraps), and the built-in
  \<open>Error\<close>.
\<close>

datatype done_error =
    APIError jsval jsval
  | InternalOAuthError string jsval
  | Error string

fun message :: "done_error \<Rightarrow> jsval" where
  "message (APIError m c) = m"
| "message (InternalOAuthError m e) = JStr m"
| "message (Error m) = JStr m"

fun code :: "done_error \<Rightarrow> jsval" where
  "code (APIError m c) = c"
| "code (InternalOAuthError m e) = JUndefined"
| "code (Error m) = JUndefined"

text \<open>
  What an operation does to the outside, in the order it does it: \<^verbatim>\<open>this.fail()\<close>, the
  base class's \<^verbatim>\<open>authenticate\<close>, \<^verbatim>\<open>this._oauth.get(url, token, tokenSecret, ...)\<close> (the
  only network call of this code), \<^verbatim>\<open>console.log\<close>, and the two ways of calling
  \<^verbatim>\<open>done\<close>.
\<close>

datatype event =
    Fail
  | BaseAuthenticate obj jsval
  | OAuthGet string jsval jsval
  | ConsoleLog string jsval
  | DoneError done_error
  | DoneProfile obj

section \<open>The profile parser\<close>

text \<open>
  \<^verbatim>\<open>JSON.parse\<close> belongs to the runtime: it is the parameter \<open>JSON_parse\<close>, which gives
  \<open>None\<close> where the runtime raises SyntaxError.

  \<^verbatim>\<open>
  exports.parse = function(json) {
    if ('string' == typeof json) {
      json = JSON.parse(json);
    }
  console.log('inside profile.js: ', json);
    var profile = {};
    profile.id = json.results[0].user_id;
    profile.username = json.results[0].login_name;
    profile.emails = json.results[0].primary_email;
    return profile;
  };
  \<close>
\<close>

definition results0 :: "jsval \<Rightarrow> string \<Rightarrow> exn + jsval" where
  "results0 json k =
     andThen (js_get json ''results'') (\<lambda>results.
     andThen (js_index results 0) (\<lambda>r. js_get r k))"

definition parse :: "(string \<Rightarrow> jsval option) \<Rightarrow> jsval \<Rightarrow> event list \<times> (exn + obj)" where
  "parse JSON_parse json0 =
     (case (case json0 of
              JStr s \<Rightarrow> (case JSON_parse s of None \<Rightarrow> Inl SyntaxError | Some v \<Rightarrow> Inr v)
            | _ \<Rightarrow> Inr json0) of
        Inl e \<Rightarrow> ([], Inl e)
      | Inr json \<Rightarrow>
          ([ConsoleLog ''inside profile.js: '' json],
           andThen (results0 json ''user_id'') (\<lambda>user_id.
           andThen (results0 json ''login_name'') (\<lambda>login_name.
           andThen (results0 json ''primary_email'') (\<lambda>primary_email.
             Inr (obj_set (obj_set (obj_set [] ''id'' user_id)
                    ''username'' login_name) ''emails'' primary_email))))))"

section \<open>The strategy\<close>

text \<open>
  The fields the constructor sets on \<^verbatim>\<open>this\<close>: \<open>base\<close> is what the base constructor
  \<^verbatim>\<open>OAuthStrategy\<close> set up, and \<open>priv_userProfileURL\<close>, \<open>priv_skipExtendedUserProfile\<close> are
  \<^verbatim>\<open>_userProfileURL\<close> and \<^verbatim>\<open>_skipExtendedUserProfile\<close>.
\<close>

record 'b strategy =
  base :: 'b
  name :: string
  priv_userProfileURL :: jsval
  priv_skipExtendedUserProfile :: jsval

subsection \<open>The constructor\<close>

text \<open>
  \<^verbatim>\<open>
  var scopeString = '?scope=';
  for (var i = 0; i < options.scope.length; i++) {
      scopeString = scopeString+options.scope[i];
      if (i < options.scope.length - 1) {
          scopeString = scopeString+'%20';
      }
  }
  \<close>
  The loop from its counter \<open>i\<close> and the string built so far. It reads the length again
  at every turn.
\<close>

definition turns_left :: "jsval \<Rightarrow> nat \<Rightarrow> nat" where
  "turns_left scope i =
     (case js_get scope ''length'' of
        Inl e \<Rightarrow> 0
      | Inr len \<Rightarrow> (case to_number len of None \<Rightarrow> 0 | Some n \<Rightarrow> nat (n - int i)))"

function scope_loop :: "jsval \<Rightarrow> nat \<Rightarrow> string \<Rightarrow> exn + string" where
  "scope_loop scope i scopeString =
     (case js_get scope ''length'' of
        Inl e \<Rightarrow> Inl e
      | Inr len \<Rightarrow>
          if num_lt (Some (int i)) (to_number len) then
            (case js_index scope i of
               Inl e \<Rightarrow> Inl e
             | Inr x \<Rightarrow>
                 scope_loop scope (Suc i)
                   (if num_lt (Some (int i)) (map_option (\<lambda>n. n - 1) (to_number len))
                    then scopeString @ to_string x @ ''%20''
                    else scopeString @ to_string x))
          else Inr scopeString)"
  by pat_completeness auto
termination
proof (relation "measure (\<lambda>(scope, i, scopeString). turns_left scope i)")
  show "wf (measure (\<lambda>(scope, i, scopeString). turns_left scope i))"
    by simp
next
  fix scope :: jsval and i :: nat and scopeString :: string and len x
  assume len: "js_get scope ''length'' = Inr len"
    and lt: "num_lt (Some (int i)) (to_number len)"
  from lt obtain n where n: "to_number len = Some n" "int i < n"
    by (cases "to_number len") auto
  with len
  show "((scope, Suc i,
          if num_lt (Some (int i)) (map_option (\<lambda>n. n - 1) (to_number len))
          then scopeString @ to_string x @ ''%20''
          else scopeString @ to_string x),
         (scope, i, scopeString))
        \<in> measure (\<lambda>(scope, i, scopeString). turns_left scope i)"
    by (simp add: turns_left_def)
qed

declare scope_loop.simps [simp del]

text \<open>
  \<^verbatim>\<open>
  if ((options.scope) && (options.scope.length > 0)){
      ... the loop ...
      options.requestTokenURL = options.requestTokenURL + scopeString;
  }
  \<close>
\<close>

definition append_scope :: "obj \<Rightarrow> exn + obj" where
  "append_scope options =
     (if truthy (obj_get options ''scope'') then
        andThen (js_get (obj_get options ''scope'') ''length'') (\<lambda>len.
          if num_lt (Some 0) (to_number len) then
            andThen (scope_loop (obj_get options ''scope'') 0 ''?scope='') (\<lambda>scopeString.
              Inr (obj_set options ''requestTokenURL''
                     (JStr (to_string (obj_get options ''requestTokenURL'') @ scopeString))))
          else Inr options)
      else Inr options)"

text \<open>\<^verbatim>\<open>options.k = options.k || d\<close>\<close>

definition set_default :: "obj \<Rightarrow> string \<Rightarrow> string \<Rightarrow> obj" where
  "set_default options k d = obj_set options k (js_or (obj_get options k) (JStr d))"

text \<open>
  \<^verbatim>\<open>
  function Strategy(options, verify) {
    options = options || {};
    options.requestTokenURL = options.requestTokenURL || 'https://openapi.etsy.com/v2/oauth/request_token';
    options.accessTokenURL = options.accessTokenURL || 'https://openapi.etsy.com/v2/oauth/access_token';
    options.userAuthorizationURL = options.userAuthorizationURL || 'https://www.etsy.com/oauth/signin';
    options.sessionKey = options.sessionKey || 'oauth:etsy';
    if ((options.scope) && (options.scope.length > 0)){ ... }
    OAuthStrategy.call(this, options, verify);
    this.name = 'etsy';
    this._userProfileURL = options.userProfileURL || 'https://openapi.etsy.com/v2/users/__SELF__';
    this._skipExtendedUserProfile = (options.skipExtendedUserProfile !== undefined) ? options.skipExtendedUserProfile : false;
  }
  \<close>
  The argument is an object or absent (\<open>None\<close>). The constructor writes into the object
  it is given, so the model returns the object as the call leaves it, next to the
  strategy or the exception. The base constructor \<open>OAuthStrategy\<close> belongs to the OAuth
  library: it is a parameter that reads the options and the verify callback, and either
  raises or gives the state it set up.
\<close>

definition Strategy ::
  "(obj \<Rightarrow> 'v \<Rightarrow> exn + 'b) \<Rightarrow> obj option \<Rightarrow> 'v \<Rightarrow> obj \<times> (exn + 'b strategy)" where
  "Strategy OAuthStrategy options0 verify =
     (let options1 = (case options0 of None \<Rightarrow> [] | Some ob \<Rightarrow> ob);
          options2 = set_default options1 ''requestTokenURL''
                       ''https://openapi.etsy.com/v2/oauth/request_token'';
          options3 = set_default options2 ''accessTokenURL''
                       ''https://openapi.etsy.com/v2/oauth/access_token'';
          options4 = set_default options3 ''userAuthorizationURL''
                       ''https://www.etsy.com/oauth/signin'';
          options5 = set_default options4 ''sessionKey'' ''oauth:etsy''
      in case append_scope options5 of
           Inl e \<Rightarrow> (options5, Inl e)
         | Inr options \<Rightarrow>
             (options,
              case OAuthStrategy options verify of
                Inl e \<Rightarrow> Inl e
              | Inr b \<Rightarrow>
                  Inr \<lparr> base = b,
                        name = ''etsy'',
                        priv_userProfileURL =
                          js_or (obj_get options ''userProfileURL'')
                            (JStr ''https://openapi.etsy.com/v2/users/__SELF__''),
                        priv_skipExtendedUserProfile =
                          (if obj_get options ''skipExtendedUserProfile'' \<noteq> JUndefined
                           then obj_get options ''skipExtendedUserProfile''
                           else JBool False) \<rparr>))"

subsection \<open>authenticate\<close>

text \<open>
  \<^verbatim>\<open>
  Strategy.prototype.authenticate = function(req, options) {
    if (req.query && req.query.denied) {
      return this.fail();
    }
    OAuthStrategy.prototype.authenticate.call(this, req, options);
  };
  \<close>
  \<open>req\<close> is the request object. The result is the calls made, in order, and the
  exception raised, if one is.
\<close>

definition authenticate :: "obj \<Rightarrow> jsval \<Rightarrow> event list \<times> exn option" where
  "authenticate req options =
     (case (if truthy (obj_get req ''query'')
            then andThen (js_get (obj_get req ''query'') ''denied'') (\<lambda>denied. Inr (truthy denied))
            else Inr False) of
        Inl e \<Rightarrow> ([], Some e)
      | Inr denied \<Rightarrow>
          if denied then ([Fail], None) else ([BaseAuthenticate req options], None))"

subsection \<open>userProfile\<close>

text \<open>
  The callback given to \<^verbatim>\<open>this._oauth.get\<close>, on a transport error:
  \<^verbatim>\<open>
  if (err.data) {
    try {
      json = JSON.parse(err.data);
    } catch (_) {}
  }
  if (json && json.errors && json.errors.length) {
    var e = json.errors[0];
    return done(new APIError(e.message, e.code));
  }
  return done(new InternalOAuthError('Failed to fetch user profile', err));
  \<close>
\<close>

definition error_json :: "(string \<Rightarrow> jsval option) \<Rightarrow> jsval \<Rightarrow> exn + jsval" where
  "error_json JSON_parse err =
     andThen (js_get err ''data'') (\<lambda>data.
       Inr (if truthy data
            then (case JSON_parse (to_string data) of None \<Rightarrow> JUndefined | Some v \<Rightarrow> v)
            else JUndefined))"

definition has_errors :: "jsval \<Rightarrow> exn + bool" where
  "has_errors json =
     (if truthy json then
        andThen (js_get json ''errors'') (\<lambda>errors.
          if truthy errors
          then andThen (js_get errors ''length'') (\<lambda>len. Inr (truthy len))
          else Inr False)
      else Inr False)"

definition on_error :: "(string \<Rightarrow> jsval option) \<Rightarrow> jsval \<Rightarrow> event list \<times> exn option" where
  "on_error JSON_parse err =
     (case andThen (error_json JSON_parse err) (\<lambda>json.
           andThen (has_errors json) (\<lambda>found.
             if found then
               andThen (js_get json ''errors'') (\<lambda>errors.
               andThen (js_index errors 0) (\<lambda>e.
               andThen (js_get e ''message'') (\<lambda>m.
               andThen (js_get e ''code'') (\<lambda>c. Inr (APIError m c)))))
             else Inr (InternalOAuthError ''Failed to fetch user profile'' err))) of
        Inl x \<Rightarrow> ([], Some x)
      | Inr de \<Rightarrow> ([DoneError de], None))"

text \<open>
  The same callback without a transport error:
  \<^verbatim>\<open>
  try {
    json = JSON.parse(body);
  } catch (ex) {
    return done(new Error('Failed to parse user profile'));
  }
  var profile = parse(json);
  profile.provider = 'etsy';
  profile._raw = body;
  profile._json = json;
  done(null, profile);
  \<close>
\<close>

definition on_success :: "(string \<Rightarrow> jsval option) \<Rightarrow> jsval \<Rightarrow> event list \<times> exn option" where
  "on_success JSON_parse body =
     (case JSON_parse (to_string body) of
        None \<Rightarrow> ([DoneError (Error ''Failed to parse user profile'')], None)
      | Some json \<Rightarrow>
          (case parse JSON_parse json of
             (log, Inl x) \<Rightarrow> (log, Some x)
           | (log, Inr profile) \<Rightarrow>
               (log @ [DoneProfile
                         (obj_set (obj_set (obj_set profile ''provider'' (JStr ''etsy''))
                            ''_raw'' body) ''_json'' json)],
                None)))"

text \<open>
  \<^verbatim>\<open>
  Strategy.prototype.userProfile = function(token, tokenSecret, params, done) {
    if (!this._skipExtendedUserProfile) {
      var json;
      this._oauth.get(this._userProfileURL + '?user_id=' + params.user_id, token, tokenSecret,
        function (err, body, res) { ... });
    } else {
      var profile = { provider: 'etsy' };
      profile.id = params.user_id;
      profile.username = params.screen_name;
      done(null, profile);
    }
  };
  \<close>
  \<open>params\<close> is the object of parameters that came with the access token. \<open>oauth_get\<close> is
  the OAuth library's request: it gives the \<open>(err, body)\<close> its callback is called with,
  or \<open>None\<close> when the callback is never called. An exception raised inside the callback
  ends the operation without a call of \<^verbatim>\<open>done\<close>.
\<close>

definition userProfile ::
  "(string \<Rightarrow> jsval option) \<Rightarrow> (string \<Rightarrow> jsval \<Rightarrow> jsval \<Rightarrow> (jsval \<times> jsval) option) \<Rightarrow>
   'b strategy \<Rightarrow> jsval \<Rightarrow> jsval \<Rightarrow> obj \<Rightarrow> event list \<times> exn option" where
  "userProfile JSON_parse oauth_get this token tokenSecret params =
     (if \<not> truthy (priv_skipExtendedUserProfile this) then
        (let url = to_string (priv_userProfileURL this) @ ''?user_id=''
                     @ to_string (obj_get params ''user_id'')
         in case oauth_get url token tokenSecret of
              None \<Rightarrow> ([OAuthGet url token tokenSecret], None)
            | Some (err, body) \<Rightarrow>
                (case (if truthy err then on_error JSON_parse err
                       else on_success JSON_parse body) of
                   (evs, x) \<Rightarrow> (OAuthGet url token tokenSecret # evs, x)))
      else
        ([DoneProfile
            (obj_set (obj_set [(''provider'', JStr ''etsy'')]
               ''id'' (obj_get params ''user_id''))
               ''username'' (obj_get params ''screen_name''))],
         None))"

section \<open>Reference notions and sample data\<close>

text \<open>Strings joined by a separator: the reference for the scope loop.\<close>

fun join_with :: "string \<Rightarrow> string list \<Rightarrow> string" where
  "join_with sep [] = []"
| "join_with sep [x] = x"
| "join_with sep (x # y # ys) = x @ sep @ join_with sep (y # ys)"

text \<open>
  Sample data for the concrete runs below: a profile response of the provider, two
  error bodies, a response with no result, and a stand-in for \<^verbatim>\<open>JSON.parse\<close> that
  knows these four texts, maps each to the value \<^verbatim>\<open>JSON.parse\<close> gives for it, and
  rejects every other text.
\<close>

definition sample_user :: obj where
  "sample_user =
     [(''user_id'', JStr ''42''), (''login_name'', JStr ''bob''),
      (''primary_email'', JStr ''bob@x.com'')]"

definition sample_response :: obj where
  "sample_response = [(''results'', JArr [JObj sample_user])]"

definition sample_response_text :: string where
  \<open>sample_response_text =
     ''{"results":[{"user_id":"42","login_name":"bob","primary_email":"bob@x.com"}]}''\<close>

definition sample_errors_text :: string where
  \<open>sample_errors_text = ''{"errors":[{"message":"m","code":"c"}]}''\<close>

definition sample_null_error_text :: string where
  \<open>sample_null_error_text = ''{"errors":[null]}''\<close>

definition sample_empty_text :: string where
  \<open>sample_empty_text = ''{"results":[]}''\<close>

definition sample_JSON_parse :: "string \<Rightarrow> jsval option" where
  "sample_JSON_parse s =
     (if s = sample_response_text then Some (JObj sample_response)
      else if s = sample_errors_text then
        Some (JObj [(''errors'', JArr [JObj [(''message'', JStr ''m''), (''code'', JStr ''c'')]])])
      else if s = sample_null_error_text then Some (JObj [(''errors'', JArr [JNull])])
      else if s = sample_empty_text then Some (JObj [(''results'', JArr [])])
      else None)"

text \<open>A strategy as the constructor leaves it by default, one that skips the extended
  profile, and a base constructor that keeps the request-token URL it is given.\<close>

definition sample_strategy :: "unit strategy" where
  "sample_strategy =
     \<lparr> base = (), name = ''etsy'',
       priv_userProfileURL = JStr ''https://openapi.etsy.com/v2/users/__SELF__'',
       priv_skipExtendedUserProfile = JBool False \<rparr>"

definition sample_skipping :: "unit strategy" where
  "sample_skipping = sample_strategy \<lparr> priv_skipExtendedUserProfile := JBool True \<rparr>"

definition sample_OAuthStrategy :: "obj \<Rightarrow> unit \<Rightarrow> exn + jsval" where
  "sample_OAuthStrategy options verify = Inr (obj_get options ''requestTokenURL'')"

text \<open>Two stand-ins for the OAuth library's request: one whose callback is called with
  a given \<open>(err, body)\<close>, whatever the request, and one whose callback is never called.\<close>

definition sample_answer ::
  "jsval \<Rightarrow> jsval \<Rightarrow> string \<Rightarrow> jsval \<Rightarrow> jsval \<Rightarrow> (jsval \<times> jsval) option" where
  "sample_answer err body url token tokenSecret = Some (err, body)"

definition sample_silence :: "string \<Rightarrow> jsval \<Rightarrow> jsval \<Rightarrow> (jsval \<times> jsval) option" where
  "sample_silence url token tokenSecret = None"

definition sample_params :: obj where
  "sample_params = [(''user_id'', JStr ''42''), (''screen_name'', JStr ''bob'')]"

text \<open>The profile the extended fetch hands over for the sample response.\<close>

definition sample_delivered :: obj where
  "sample_delivered =
     [(''id'', JStr ''42''), (''username'', JStr ''bob''), (''emails'', JStr ''bob@x.com''),
      (''provider'', JStr ''etsy''), (''_raw'', JStr sample_response_text),
      (''_json'', JObj sample_response)]"

section \<open>Auxiliary facts\<close>

lemma obj_get_obj_set:
  "obj_get (obj_set ob k v) k' = (if k' = k then v else obj_get ob k')"
  by (induction ob) (auto simp: obj_get_def)

lemma join_with_Cons:
  "join_with sep (x # xs) = (if xs = [] then x else x @ sep @ join_with sep xs)"
  by (cases xs) simp_all

text \<open>The loop over an array of strings, from any counter.\<close>

lemma scope_loop_strings:
  "i \<le> length ss \<Longrightarrow>
   scope_loop (JArr (map JStr ss)) i acc = Inr (acc @ join_with ''%20'' (drop i ss))"
proof (induction "length ss - i" arbitrary: i acc)
  case 0
  then have "i = length ss" by simp
  then show ?case
    by (subst scope_loop.simps) simp
next
  case (Suc d)
  then have lt: "i < length ss" by simp
  have step: "drop i ss = ss ! i # drop (Suc i) ss"
    using lt by (simp add: Cons_nth_drop_Suc)
  have ih: "\<And>acc'. scope_loop (JArr (map JStr ss)) (Suc i) acc'
              = Inr (acc' @ join_with ''%20'' (drop (Suc i) ss))"
    using Suc lt by simp
  show ?case
  proof (cases "Suc i < length ss")
    case True
    then show ?thesis
      using lt by (subst scope_loop.simps) (simp add: ih step join_with_Cons)
  next
    case False
    with lt have "drop (Suc i) ss = []" by simp
    with False lt show ?thesis
      by (subst scope_loop.simps) (simp add: ih step)
  qed
qed

lemma append_scope_strings:
  assumes "obj_get options ''scope'' = JArr (map JStr ss)" and "ss \<noteq> []"
  shows "append_scope options =
           Inr (obj_set options ''requestTokenURL''
                  (JStr (to_string (obj_get options ''requestTokenURL'')
                         @ ''?scope='' @ join_with ''%20'' ss)))"
  using assms by (simp add: append_scope_def andThen_def scope_loop_strings)

text \<open>The options object as the constructor leaves it, for a scope that is a non-empty
  array of strings.\<close>

lemma Strategy_options:
  assumes "obj_get ob ''scope'' = JArr (map JStr ss)" and "ss \<noteq> []"
  shows "fst (Strategy OAuthStrategy (Some ob) verify) =
           obj_set (set_default (set_default (set_default (set_default ob
              ''requestTokenURL'' ''https://openapi.etsy.com/v2/oauth/request_token'')
              ''accessTokenURL'' ''https://openapi.etsy.com/v2/oauth/access_token'')
              ''userAuthorizationURL'' ''https://www.etsy.com/oauth/signin'')
              ''sessionKey'' ''oauth:etsy'')
             ''requestTokenURL''
             (JStr (to_string (js_or (obj_get ob ''requestTokenURL'')
                      (JStr ''https://openapi.etsy.com/v2/oauth/request_token''))
                    @ ''?scope='' @ join_with ''%20'' ss))"
proof -
  let ?o5 = "set_default (set_default (set_default (set_default ob
              ''requestTokenURL'' ''https://openapi.etsy.com/v2/oauth/request_token'')
              ''accessTokenURL'' ''https://openapi.etsy.com/v2/oauth/access_token'')
              ''userAuthorizationURL'' ''https://www.etsy.com/oauth/signin'')
              ''sessionKey'' ''oauth:etsy''"
  have sc: "obj_get ?o5 ''scope'' = JArr (map JStr ss)"
    using assms(1) by (simp add: set_default_def obj_get_obj_set)
  have ru: "obj_get ?o5 ''requestTokenURL'' = js_or (obj_get ob ''requestTokenURL'')
                      (JStr ''https://openapi.etsy.com/v2/oauth/request_token'')"
    by (simp add: set_default_def obj_get_obj_set)
  show ?thesis
    unfolding Strategy_def Let_def option.case
    by (simp only: append_scope_strings [OF sc assms(2)] ru sum.case fst_conv)
qed

lemma Strategy_requestTokenURL:
  assumes "obj_get ob ''scope'' = JArr (map JStr ss)" and "ss \<noteq> []"
  shows "obj_get (fst (Strategy OAuthStrategy (Some ob) verify)) ''requestTokenURL'' =
           JStr (to_string (js_or (obj_get ob ''requestTokenURL'')
                   (JStr ''https://openapi.etsy.com/v2/oauth/request_token''))
                 @ ''?scope='' @ join_with ''%20'' ss)"
  by (simp add: Strategy_options [OF assms] obj_get_obj_set)

lemma Strategy_scope:
  assumes "obj_get ob ''scope'' = JArr (map JStr ss)" and "ss \<noteq> []"
  shows "obj_get (fst (Strategy OAuthStrategy (Some ob) verify)) ''scope'' = JArr (map JStr ss)"
  using assms(1)
  by (simp add: Strategy_options [OF assms] obj_get_obj_set set_default_def)

text \<open>The base constructor runs on the options as the scope step leaves them, and the
  strategy carries what it set up.\<close>

lemma Strategy_base:
  assumes "obj_get ob ''scope'' = JArr (map JStr ss)" and "ss \<noteq> []"
  shows "map_sum id base (snd (Strategy OAuthStrategy (Some ob) verify)) =
           OAuthStrategy (fst (Strategy OAuthStrategy (Some ob) verify)) verify"
proof -
  let ?o5 = "set_default (set_default (set_default (set_default ob
              ''requestTokenURL'' ''https://openapi.etsy.com/v2/oauth/request_token'')
              ''accessTokenURL'' ''https://openapi.etsy.com/v2/oauth/access_token'')
              ''userAuthorizationURL'' ''https://www.etsy.com/oauth/signin'')
              ''sessionKey'' ''oauth:etsy''"
  have sc: "obj_get ?o5 ''scope'' = JArr (map JStr ss)"
    using assms(1) by (simp add: set_default_def obj_get_obj_set)
  show ?thesis
    unfolding Strategy_def Let_def option.case
    by (simp add: append_scope_strings [OF sc assms(2)] split: sum.splits)
qed

text \<open>The parser's profile has the three fields, in this order.\<close>

lemma parse_shape:
  assumes "parse JSON_parse json = (log, Inr profile)"
  shows "\<exists>a b c. profile = [(''id'', a), (''username'', b), (''emails'', c)]"
  using assms
  by (auto simp: parse_def andThen_def split: sum.splits jsval.splits option.splits)

text \<open>The extended fetch: the request goes out, then the callback runs.\<close>

lemma userProfile_fetch:
  assumes "\<not> truthy (priv_skipExtendedUserProfile this)"
    and "oauth_get (to_string (priv_userProfileURL this) @ ''?user_id=''
                      @ to_string (obj_get params ''user_id'')) token tokenSecret
         = Some (err, body)"
  shows "userProfile JSON_parse oauth_get this token tokenSecret params =
           (OAuthGet (to_string (priv_userProfileURL this) @ ''?user_id=''
                        @ to_string (obj_get params ''user_id'')) token tokenSecret
              # fst (if truthy err then on_error JSON_parse err else on_success JSON_parse body),
            snd (if truthy err then on_error JSON_parse err else on_success JSON_parse body))"
  using assms by (simp add: userProfile_def Let_def split: prod.splits)

section \<open>The profile parser: properties\<close>

text \<open>
  C1. Given an object of the shape \<^verbatim>\<open>{results: [{user_id, login_name, primary_email, ...}, ...]}\<close>
  with at least one result, or a string that \<^verbatim>\<open>JSON.parse\<close> turns into such an object,
  the parser returns the profile whose \<^verbatim>\<open>id\<close>, \<^verbatim>\<open>username\<close> and \<^verbatim>\<open>emails\<close> are the
  \<^verbatim>\<open>user_id\<close>, \<^verbatim>\<open>login_name\<close> and \<^verbatim>\<open>primary_email\<close> of the first result.
\<close>

theorem parse_takes_first_result:
  assumes "json0 = JObj ob \<or> (json0 = JStr s \<and> JSON_parse s = Some (JObj ob))"
    and "obj_get ob ''results'' = JArr (JObj r # rest)"
  shows "parse JSON_parse json0 =
           ([ConsoleLog ''inside profile.js: '' (JObj ob)],
            Inr [(''id'', obj_get r ''user_id''),
                 (''username'', obj_get r ''login_name''),
                 (''emails'', obj_get r ''primary_email'')])"
  using assms by (auto simp: parse_def results0_def andThen_def)

theorem parse_takes_first_result_witness:
  "parse sample_JSON_parse (JStr sample_response_text) =
     ([ConsoleLog ''inside profile.js: '' (JObj sample_response)],
      Inr [(''id'', JStr ''42''), (''username'', JStr ''bob''), (''emails'', JStr ''bob@x.com'')])
   \<and> parse sample_JSON_parse (JObj sample_response) =
     ([ConsoleLog ''inside profile.js: '' (JObj sample_response)],
      Inr [(''id'', JStr ''42''), (''username'', JStr ''bob''), (''emails'', JStr ''bob@x.com'')])"
proof -
  have p: "sample_JSON_parse sample_response_text = Some (JObj sample_response)"
    by (simp add: sample_JSON_parse_def)
  have r: "obj_get sample_response ''results'' = JArr (JObj sample_user # [])"
    by (simp add: sample_response_def obj_get_def)
  have a: "JStr sample_response_text = JObj sample_response
           \<or> (JStr sample_response_text = JStr sample_response_text
              \<and> sample_JSON_parse sample_response_text = Some (JObj sample_response))"
    using p by simp
  have b: "JObj sample_response = JObj sample_response
           \<or> (JObj sample_response = JStr sample_response_text
              \<and> sample_JSON_parse sample_response_text = Some (JObj sample_response))"
    by simp
  show ?thesis
    using parse_takes_first_result
            [where JSON_parse = sample_JSON_parse and s = sample_response_text, OF a r]
          parse_takes_first_result
            [where JSON_parse = sample_JSON_parse and s = sample_response_text, OF b r]
    by (simp add: sample_user_def obj_get_def)
qed

text \<open>
  C7. A text that \<^verbatim>\<open>JSON.parse\<close> rejects never gives a profile: the parser, called on
  the string, ends with the SyntaxError before it does anything else, and the extended
  fetch that receives the text as its body calls \<^verbatim>\<open>done\<close> with the error
  "Failed to parse user profile" and does not call the parser (whose call would show
  as a \<open>ConsoleLog\<close>).
\<close>

theorem malformed_json_fails:
  assumes "JSON_parse s = None"
    and "\<not> truthy (priv_skipExtendedUserProfile this)"
    and "oauth_get (to_string (priv_userProfileURL this) @ ''?user_id=''
                      @ to_string (obj_get params ''user_id'')) token tokenSecret
         = Some (err, JStr s)"
    and "\<not> truthy err"
  shows "parse JSON_parse (JStr s) = ([], Inl SyntaxError)
       \<and> userProfile JSON_parse oauth_get this token tokenSecret params =
           ([OAuthGet (to_string (priv_userProfileURL this) @ ''?user_id=''
                         @ to_string (obj_get params ''user_id'')) token tokenSecret,
             DoneError (Error ''Failed to parse user profile'')],
            None)"
  using assms(1,4)
  by (simp add: userProfile_fetch [where oauth_get = oauth_get and this = this and params = params,
          OF assms(2,3)] parse_def on_success_def)

theorem malformed_json_fails_witness:
  "sample_JSON_parse ''{oops'' = None
   \<and> parse sample_JSON_parse (JStr ''{oops'') = ([], Inl SyntaxError)
   \<and> userProfile sample_JSON_parse (sample_answer JNull (JStr ''{oops''))
       sample_strategy (JStr ''token'') (JStr ''secret'') sample_params =
       ([OAuthGet ''https://openapi.etsy.com/v2/users/__SELF__?user_id=42''
           (JStr ''token'') (JStr ''secret''),
         DoneError (Error ''Failed to parse user profile'')],
        None)"
proof -
  have p: "sample_JSON_parse ''{oops'' = None"
    by (simp add: sample_JSON_parse_def sample_response_text_def sample_errors_text_def
          sample_null_error_text_def sample_empty_text_def)
  have k: "\<not> truthy (priv_skipExtendedUserProfile sample_strategy)"
    by (simp add: sample_strategy_def)
  have g: "sample_answer JNull (JStr ''{oops'')
             (to_string (priv_userProfileURL sample_strategy) @ ''?user_id=''
                @ to_string (obj_get sample_params ''user_id''))
             (JStr ''token'') (JStr ''secret'')
           = Some (JNull, JStr ''{oops'')"
    by (simp add: sample_answer_def)
  have e: "\<not> truthy JNull" by simp
  show ?thesis
    using p malformed_json_fails
            [where JSON_parse = sample_JSON_parse and this = sample_strategy
               and params = sample_params
               and oauth_get = "sample_answer JNull (JStr ''{oops'')",
             OF p k g e]
    by (simp add: sample_strategy_def sample_params_def obj_get_def)
qed

text \<open>
  C8. When the parsed response has an empty \<^verbatim>\<open>results\<close> array, the parser raises the
  runtime's TypeError (the read of \<^verbatim>\<open>user_id\<close> on the missing first result): it returns
  no profile, and the extended fetch ends with that exception, without a call of
  \<^verbatim>\<open>done\<close>.
\<close>

theorem parse_empty_results_faults:
  assumes "js_get json ''results'' = Inr (JArr [])"
    and "JSON_parse (to_string body) = Some json"
    and "\<not> truthy (priv_skipExtendedUserProfile this)"
    and "oauth_get (to_string (priv_userProfileURL this) @ ''?user_id=''
                      @ to_string (obj_get params ''user_id'')) token tokenSecret
         = Some (err, body)"
    and "\<not> truthy err"
  shows "parse JSON_parse json = ([ConsoleLog ''inside profile.js: '' json], Inl TypeError)
       \<and> userProfile JSON_parse oauth_get this token tokenSecret params =
           ([OAuthGet (to_string (priv_userProfileURL this) @ ''?user_id=''
                         @ to_string (obj_get params ''user_id'')) token tokenSecret,
             ConsoleLog ''inside profile.js: '' json],
            Some TypeError)"
proof -
  have p: "parse JSON_parse json = ([ConsoleLog ''inside profile.js: '' json], Inl TypeError)"
    using assms(1) by (cases json) (simp_all add: parse_def results0_def andThen_def)
  show ?thesis
    using assms(2,5) by (simp add: userProfile_fetch [where oauth_get = oauth_get and this = this and params = params,
          OF assms(3,4)] p on_success_def)
qed

theorem parse_empty_results_faults_witness:
  "parse sample_JSON_parse (JObj [(''results'', JArr [])]) =
     ([ConsoleLog ''inside profile.js: '' (JObj [(''results'', JArr [])])], Inl TypeError)
   \<and> userProfile sample_JSON_parse
       (sample_answer JNull (JStr sample_empty_text))
       sample_strategy (JStr ''token'') (JStr ''secret'') sample_params =
       ([OAuthGet ''https://openapi.etsy.com/v2/users/__SELF__?user_id=42''
           (JStr ''token'') (JStr ''secret''),
         ConsoleLog ''inside profile.js: '' (JObj [(''results'', JArr [])])],
        Some TypeError)"
proof -
  have r: "js_get (JObj [(''results'', JArr [])]) ''results'' = Inr (JArr [])"
    by (simp add: obj_get_def)
  have p: "sample_JSON_parse (to_string (JStr sample_empty_text))
           = Some (JObj [(''results'', JArr [])])"
    by (simp add: sample_JSON_parse_def sample_response_text_def sample_errors_text_def
          sample_null_error_text_def sample_empty_text_def)
  have k: "\<not> truthy (priv_skipExtendedUserProfile sample_strategy)"
    by (simp add: sample_strategy_def)
  have g: "sample_answer JNull (JStr sample_empty_text)
             (to_string (priv_userProfileURL sample_strategy) @ ''?user_id=''
                @ to_string (obj_get sample_params ''user_id''))
             (JStr ''token'') (JStr ''secret'')
           = Some (JNull, JStr sample_empty_text)"
    by (simp add: sample_answer_def)
  have e: "\<not> truthy JNull" by simp
  show ?thesis
    using parse_empty_results_faults
            [where JSON_parse = sample_JSON_parse and this = sample_strategy
               and params = sample_params
               and oauth_get = "sample_answer JNull (JStr sample_empty_text)",
             OF r p k g e]
    by (simp add: sample_strategy_def sample_params_def obj_get_def)
qed

section \<open>authenticate: properties\<close>

text \<open>
  C2. When the request's query object holds a truthy \<^verbatim>\<open>denied\<close>, authenticate calls
  \<^verbatim>\<open>this.fail()\<close> and nothing else: it does not hand the request to the base class's
  \<^verbatim>\<open>authenticate\<close> and makes no request of its own.
\<close>

theorem authenticate_denied_fails:
  assumes "obj_get req ''query'' = JObj query"
    and "truthy (obj_get query ''denied'')"
  shows "authenticate req options = ([Fail], None)"
  using assms by (simp add: authenticate_def andThen_def)

theorem authenticate_denied_fails_witness:
  "authenticate [(''query'', JObj [(''denied'', JStr ''xxx'')])] JUndefined = ([Fail], None)"
proof -
  have q: "obj_get [(''query'', JObj [(''denied'', JStr ''xxx'')])] ''query''
           = JObj [(''denied'', JStr ''xxx'')]"
    by (simp add: obj_get_def)
  have d: "truthy (obj_get [(''denied'', JStr ''xxx'')] ''denied'')"
    by (simp add: obj_get_def)
  show ?thesis
    by (rule authenticate_denied_fails [OF q d])
qed

section \<open>userProfile: properties\<close>

text \<open>
  C5. With the extended profile skipped, userProfile makes no request: its one call is
  \<^verbatim>\<open>done(null, profile)\<close>, where the profile's \<^verbatim>\<open>id\<close> is \<^verbatim>\<open>params.user_id\<close> and its
  \<^verbatim>\<open>username\<close> is \<^verbatim>\<open>params.screen_name\<close>.
\<close>

theorem userProfile_skip_profile:
  assumes "truthy (priv_skipExtendedUserProfile this)"
  shows "userProfile JSON_parse oauth_get this token tokenSecret params =
           ([DoneProfile [(''provider'', JStr ''etsy''),
                          (''id'', obj_get params ''user_id''),
                          (''username'', obj_get params ''screen_name'')]],
            None)"
  using assms by (simp add: userProfile_def)

theorem userProfile_skip_profile_witness:
  "userProfile sample_JSON_parse sample_silence sample_skipping
     (JStr ''token'') (JStr ''secret'') sample_params =
     ([DoneProfile [(''provider'', JStr ''etsy''), (''id'', JStr ''42''),
                    (''username'', JStr ''bob'')]],
      None)"
proof -
  have k: "truthy (priv_skipExtendedUserProfile sample_skipping)"
    by (simp add: sample_skipping_def)
  show ?thesis
    using userProfile_skip_profile
            [where this = sample_skipping and params = sample_params
               and JSON_parse = sample_JSON_parse
               and oauth_get = "sample_silence", OF k]
    by (simp add: sample_params_def obj_get_def)
qed

text \<open>
  C10. With the extended profile skipped, the profile handed to \<^verbatim>\<open>done\<close> has the fields
  \<^verbatim>\<open>provider\<close>, \<^verbatim>\<open>id\<close> and \<^verbatim>\<open>username\<close> and no other: reading \<^verbatim>\<open>emails\<close>, \<^verbatim>\<open>_raw\<close> or
  \<^verbatim>\<open>_json\<close> from it gives \<^verbatim>\<open>undefined\<close>.
\<close>

theorem userProfile_skip_fields:
  assumes "truthy (priv_skipExtendedUserProfile this)"
  shows "\<exists>profile.
           userProfile JSON_parse oauth_get this token tokenSecret params
             = ([DoneProfile profile], None)
         \<and> map fst profile = [''provider'', ''id'', ''username'']
         \<and> obj_get profile ''emails'' = JUndefined
         \<and> obj_get profile ''_raw'' = JUndefined
         \<and> obj_get profile ''_json'' = JUndefined"
  using assms by (simp add: userProfile_def obj_get_def)

theorem userProfile_skip_fields_witness:
  "\<exists>profile.
     userProfile sample_JSON_parse sample_silence sample_skipping
       (JStr ''token'') (JStr ''secret'') sample_params
       = ([DoneProfile profile], None)
   \<and> map fst profile = [''provider'', ''id'', ''username'']
   \<and> obj_get profile ''emails'' = JUndefined
   \<and> obj_get profile ''_raw'' = JUndefined
   \<and> obj_get profile ''_json'' = JUndefined"
proof -
  have k: "truthy (priv_skipExtendedUserProfile sample_skipping)"
    by (simp add: sample_skipping_def)
  show ?thesis
    by (rule userProfile_skip_fields [OF k])
qed

text \<open>
  C6, as the code has it. When the fetch succeeds, its body parses and the parser
  returns a profile, \<^verbatim>\<open>done\<close> receives that profile's \<^verbatim>\<open>id\<close>, \<^verbatim>\<open>username\<close> and
  \<^verbatim>\<open>emails\<close>, followed by \<^verbatim>\<open>provider\<close> equal to "etsy", the body under the name
  \<^verbatim>\<open>_raw\<close> and the parsed JSON under the name \<^verbatim>\<open>_json\<close>.
\<close>

theorem userProfile_extended_profile:
  assumes "\<not> truthy (priv_skipExtendedUserProfile this)"
    and "oauth_get (to_string (priv_userProfileURL this) @ ''?user_id=''
                      @ to_string (obj_get params ''user_id'')) token tokenSecret
         = Some (err, body)"
    and "\<not> truthy err"
    and "JSON_parse (to_string body) = Some json"
    and "parse JSON_parse json = (log, Inr profile)"
  shows "userProfile JSON_parse oauth_get this token tokenSecret params =
           (OAuthGet (to_string (priv_userProfileURL this) @ ''?user_id=''
                        @ to_string (obj_get params ''user_id'')) token tokenSecret
              # log
              @ [DoneProfile [(''id'', obj_get profile ''id''),
                              (''username'', obj_get profile ''username''),
                              (''emails'', obj_get profile ''emails''),
                              (''provider'', JStr ''etsy''),
                              (''_raw'', body),
                              (''_json'', json)]],
            None)"
proof -
  from parse_shape [OF assms(5)]
  obtain a b c where "profile = [(''id'', a), (''username'', b), (''emails'', c)]"
    by blast
  then show ?thesis
    using assms(3,4,5)
    by (simp add: userProfile_fetch [where oauth_get = oauth_get and this = this
                    and params = params, OF assms(1,2)] on_success_def obj_get_def)
qed

theorem userProfile_extended_profile_witness:
  "userProfile sample_JSON_parse
     (sample_answer JNull (JStr sample_response_text))
     sample_strategy (JStr ''token'') (JStr ''secret'') sample_params =
     ([OAuthGet ''https://openapi.etsy.com/v2/users/__SELF__?user_id=42''
         (JStr ''token'') (JStr ''secret''),
       ConsoleLog ''inside profile.js: '' (JObj sample_response),
       DoneProfile [(''id'', JStr ''42''), (''username'', JStr ''bob''),
                    (''emails'', JStr ''bob@x.com''), (''provider'', JStr ''etsy''),
                    (''_raw'', JStr sample_response_text),
                    (''_json'', JObj sample_response)]],
      None)"
proof -
  have k: "\<not> truthy (priv_skipExtendedUserProfile sample_strategy)"
    by (simp add: sample_strategy_def)
  have g: "sample_answer JNull (JStr sample_response_text)
             (to_string (priv_userProfileURL sample_strategy) @ ''?user_id=''
                @ to_string (obj_get sample_params ''user_id''))
             (JStr ''token'') (JStr ''secret'')
           = Some (JNull, JStr sample_response_text)"
    by (simp add: sample_answer_def)
  have e: "\<not> truthy JNull" by simp
  have p: "sample_JSON_parse (to_string (JStr sample_response_text))
           = Some (JObj sample_response)"
    by (simp add: sample_JSON_parse_def)
  have q: "parse sample_JSON_parse (JObj sample_response) =
             ([ConsoleLog ''inside profile.js: '' (JObj sample_response)],
              Inr [(''id'', JStr ''42''), (''username'', JStr ''bob''),
                   (''emails'', JStr ''bob@x.com'')])"
    by (simp add: parse_def results0_def andThen_def sample_response_def sample_user_def
          obj_get_def)
  show ?thesis
    using userProfile_extended_profile
            [where JSON_parse = sample_JSON_parse and this = sample_strategy
               and params = sample_params
               and oauth_get = "sample_answer JNull (JStr sample_response_text)",
             OF k g e p q]
    by (simp add: sample_strategy_def sample_params_def obj_get_def)
qed

text \<open>
  C6 as it is stated fails: for the sample response the profile handed to \<^verbatim>\<open>done\<close> is
  \<open>sample_delivered\<close>, and it has no field named \<^verbatim>\<open>raw\<close> and none named \<^verbatim>\<open>json\<close>.
\<close>

theorem userProfile_raw_json_counterexample:
  "userProfile sample_JSON_parse
     (sample_answer JNull (JStr sample_response_text))
     sample_strategy (JStr ''token'') (JStr ''secret'') sample_params =
     ([OAuthGet ''https://openapi.etsy.com/v2/users/__SELF__?user_id=42''
         (JStr ''token'') (JStr ''secret''),
       ConsoleLog ''inside profile.js: '' (JObj sample_response),
       DoneProfile sample_delivered],
      None)
   \<and> obj_get sample_delivered ''raw'' \<noteq> JStr sample_response_text
   \<and> obj_get sample_delivered ''json'' \<noteq> JObj sample_response
   \<and> map fst sample_delivered
       = [''id'', ''username'', ''emails'', ''provider'', ''_raw'', ''_json'']"
  by (simp add: userProfile_def on_success_def parse_def results0_def andThen_def
        sample_answer_def sample_strategy_def sample_params_def sample_JSON_parse_def sample_response_def
        sample_user_def sample_delivered_def obj_get_def)

text \<open>
  C3, as the code has it. When the fetch fails with an error whose \<^verbatim>\<open>data\<close> parses as
  JSON with a non-empty \<^verbatim>\<open>errors\<close> array, and the first error is a value whose
  \<^verbatim>\<open>message\<close> and \<^verbatim>\<open>code\<close> can be read (any value but \<^verbatim>\<open>null\<close>), \<^verbatim>\<open>done\<close> receives
  the APIError made of that message and that code.
\<close>

theorem userProfile_api_error:
  assumes "\<not> truthy (priv_skipExtendedUserProfile this)"
    and "oauth_get (to_string (priv_userProfileURL this) @ ''?user_id=''
                      @ to_string (obj_get params ''user_id'')) token tokenSecret
         = Some (err, body)"
    and "truthy err"
    and "js_get err ''data'' = Inr data"
    and "truthy data"
    and "JSON_parse (to_string data) = Some json"
    and "js_get json ''errors'' = Inr (JArr (e # es))"
    and "js_get e ''message'' = Inr m"
    and "js_get e ''code'' = Inr c"
  shows "userProfile JSON_parse oauth_get this token tokenSecret params =
           ([OAuthGet (to_string (priv_userProfileURL this) @ ''?user_id=''
                         @ to_string (obj_get params ''user_id'')) token tokenSecret,
             DoneError (APIError m c)],
            None)
       \<and> message (APIError m c) = m \<and> code (APIError m c) = c"
proof -
  have j: "truthy json"
    using assms(7) by (cases json) (simp_all split: if_splits)
  have h: "has_errors json = Inr True"
    using j assms(7) by (simp add: has_errors_def andThen_def)
  have "on_error JSON_parse err = ([DoneError (APIError m c)], None)"
    using assms(4-9) h by (simp add: on_error_def error_json_def andThen_def)
  then show ?thesis
    using assms(3)
    by (simp add: userProfile_fetch [where oauth_get = oauth_get and this = this
                    and params = params, OF assms(1,2)])
qed

theorem userProfile_api_error_witness:
  "userProfile sample_JSON_parse
     (sample_answer
        (JObj [(''statusCode'', JNum 403), (''data'', JStr sample_errors_text)]) JUndefined)
     sample_strategy (JStr ''token'') (JStr ''secret'') sample_params =
     ([OAuthGet ''https://openapi.etsy.com/v2/users/__SELF__?user_id=42''
         (JStr ''token'') (JStr ''secret''),
       DoneError (APIError (JStr ''m'') (JStr ''c''))],
      None)
   \<and> message (APIError (JStr ''m'') (JStr ''c'')) = JStr ''m''
   \<and> code (APIError (JStr ''m'') (JStr ''c'')) = JStr ''c''"
proof -
  let ?err = "JObj [(''statusCode'', JNum 403), (''data'', JStr sample_errors_text)]"
  let ?e = "JObj [(''message'', JStr ''m''), (''code'', JStr ''c'')]"
  have k: "\<not> truthy (priv_skipExtendedUserProfile sample_strategy)"
    by (simp add: sample_strategy_def)
  have g: "sample_answer ?err JUndefined
             (to_string (priv_userProfileURL sample_strategy) @ ''?user_id=''
                @ to_string (obj_get sample_params ''user_id''))
             (JStr ''token'') (JStr ''secret'')
           = Some (?err, JUndefined)"
    by (simp add: sample_answer_def)
  have t: "truthy ?err" by simp
  have d: "js_get ?err ''data'' = Inr (JStr sample_errors_text)"
    by (simp add: obj_get_def)
  have td: "truthy (JStr sample_errors_text)"
    by (simp add: sample_errors_text_def)
  have p: "sample_JSON_parse (to_string (JStr sample_errors_text))
           = Some (JObj [(''errors'', JArr [?e])])"
    by (simp add: sample_JSON_parse_def sample_response_text_def sample_errors_text_def)
  have es: "js_get (JObj [(''errors'', JArr [?e])]) ''errors'' = Inr (JArr (?e # []))"
    by (simp add: obj_get_def)
  have m: "js_get ?e ''message'' = Inr (JStr ''m'')"
    by (simp add: obj_get_def)
  have c: "js_get ?e ''code'' = Inr (JStr ''c'')"
    by (simp add: obj_get_def)
  show ?thesis
    using userProfile_api_error
            [where JSON_parse = sample_JSON_parse and this = sample_strategy
               and params = sample_params
               and oauth_get = "sample_answer ?err JUndefined",
             OF k g t d td p es m c]
    by (simp add: sample_strategy_def sample_params_def obj_get_def)
qed

text \<open>
  C3 as it is stated fails: the error body \<^verbatim>\<open>{"errors":[null]}\<close> parses as JSON with a
  non-empty \<^verbatim>\<open>errors\<close> array, and userProfile ends with a TypeError (the read of
  \<^verbatim>\<open>message\<close> on \<^verbatim>\<open>null\<close>) without a call of \<^verbatim>\<open>done\<close>.
\<close>

theorem userProfile_null_error_counterexample:
  "sample_JSON_parse sample_null_error_text = Some (JObj [(''errors'', JArr [JNull])])
   \<and> userProfile sample_JSON_parse
       (sample_answer
          (JObj [(''statusCode'', JNum 403), (''data'', JStr sample_null_error_text)])
          JUndefined)
       sample_strategy (JStr ''token'') (JStr ''secret'') sample_params =
       ([OAuthGet ''https://openapi.etsy.com/v2/users/__SELF__?user_id=42''
           (JStr ''token'') (JStr ''secret'')],
        Some TypeError)"
  by (simp add: userProfile_def on_error_def error_json_def has_errors_def andThen_def
        sample_answer_def sample_strategy_def sample_params_def sample_JSON_parse_def sample_response_text_def
        sample_errors_text_def sample_null_error_text_def obj_get_def)

section \<open>The constructor: properties\<close>

text \<open>
  C4. When the configured scope is a non-empty list of strings, the constructor leaves
  in \<^verbatim>\<open>options.requestTokenURL\<close> the request-token URL (the configured one, or the
  default) followed by \<^verbatim>\<open>?scope=\<close> and the scope strings joined by \<^verbatim>\<open>%20\<close>, and
  this is the options object the base constructor is run on.
\<close>

theorem Strategy_appends_scope:
  assumes "obj_get ob ''scope'' = JArr (map JStr ss)" and "ss \<noteq> []"
  shows "obj_get (fst (Strategy OAuthStrategy (Some ob) verify)) ''requestTokenURL'' =
           JStr (to_string (js_or (obj_get ob ''requestTokenURL'')
                   (JStr ''https://openapi.etsy.com/v2/oauth/request_token''))
                 @ ''?scope='' @ join_with ''%20'' ss)
       \<and> map_sum id base (snd (Strategy OAuthStrategy (Some ob) verify)) =
           OAuthStrategy (fst (Strategy OAuthStrategy (Some ob) verify)) verify"
proof (rule conjI)
  show "obj_get (fst (Strategy OAuthStrategy (Some ob) verify)) ''requestTokenURL'' =
          JStr (to_string (js_or (obj_get ob ''requestTokenURL'')
                  (JStr ''https://openapi.etsy.com/v2/oauth/request_token''))
                @ ''?scope='' @ join_with ''%20'' ss)"
    by (rule Strategy_requestTokenURL [OF assms])
  show "map_sum id base (snd (Strategy OAuthStrategy (Some ob) verify)) =
          OAuthStrategy (fst (Strategy OAuthStrategy (Some ob) verify)) verify"
    by (rule Strategy_base [OF assms])
qed

theorem Strategy_appends_scope_witness:
  "obj_get (fst (Strategy sample_OAuthStrategy
      (Some [(''consumerKey'', JStr ''key''), (''consumerSecret'', JStr ''secret''),
             (''scope'', JArr [JStr ''a'', JStr ''b''])]) ())) ''requestTokenURL''
     = JStr ''https://openapi.etsy.com/v2/oauth/request_token?scope=a%20b''
   \<and> map_sum id base (snd (Strategy sample_OAuthStrategy
      (Some [(''consumerKey'', JStr ''key''), (''consumerSecret'', JStr ''secret''),
             (''scope'', JArr [JStr ''a'', JStr ''b''])]) ()))
     = Inr (JStr ''https://openapi.etsy.com/v2/oauth/request_token?scope=a%20b'')"
proof -
  let ?ob = "[(''consumerKey'', JStr ''key''), (''consumerSecret'', JStr ''secret''),
              (''scope'', JArr [JStr ''a'', JStr ''b''])]"
  have sc: "obj_get ?ob ''scope'' = JArr (map JStr [''a'', ''b''])"
    by (simp add: obj_get_def)
  have ne: "[''a'', ''b''] \<noteq> []" by simp
  have u: "obj_get ?ob ''requestTokenURL'' = JUndefined"
    by (simp add: obj_get_def)
  from Strategy_appends_scope [where OAuthStrategy = sample_OAuthStrategy and verify = "()",
         OF sc ne]
  show ?thesis
    by (simp add: u js_or_def sample_OAuthStrategy_def)
qed

text \<open>
  C9. The scope step is not idempotent. The constructor writes the extended URL into
  the options object it is given, so a second construction from the same object, with
  a non-empty list of scope strings, finds the extended URL and extends it again: the
  query string is there twice, and the URL differs from the one the first construction
  left.
\<close>

theorem Strategy_twice_appends_twice:
  assumes "obj_get ob ''scope'' = JArr (map JStr ss)" and "ss \<noteq> []"
  shows "obj_get (fst (Strategy OAuthStrategy2
                    (Some (fst (Strategy OAuthStrategy1 (Some ob) verify1))) verify2))
           ''requestTokenURL'' =
           JStr (to_string (js_or (obj_get ob ''requestTokenURL'')
                   (JStr ''https://openapi.etsy.com/v2/oauth/request_token''))
                 @ (''?scope='' @ join_with ''%20'' ss)
                 @ (''?scope='' @ join_with ''%20'' ss))
       \<and> obj_get (fst (Strategy OAuthStrategy2
                    (Some (fst (Strategy OAuthStrategy1 (Some ob) verify1))) verify2))
           ''requestTokenURL'' \<noteq>
         obj_get (fst (Strategy OAuthStrategy1 (Some ob) verify1)) ''requestTokenURL''"
proof -
  let ?o1 = "fst (Strategy OAuthStrategy1 (Some ob) verify1)"
  have sc1: "obj_get ?o1 ''scope'' = JArr (map JStr ss)"
    by (rule Strategy_scope [OF assms])
  have u1: "obj_get ?o1 ''requestTokenURL'' =
              JStr (to_string (js_or (obj_get ob ''requestTokenURL'')
                      (JStr ''https://openapi.etsy.com/v2/oauth/request_token''))
                    @ ''?scope='' @ join_with ''%20'' ss)"
    by (rule Strategy_requestTokenURL [OF assms])
  have u2: "obj_get (fst (Strategy OAuthStrategy2 (Some ?o1) verify2)) ''requestTokenURL'' =
              JStr (to_string (js_or (obj_get ?o1 ''requestTokenURL'')
                      (JStr ''https://openapi.etsy.com/v2/oauth/request_token''))
                    @ ''?scope='' @ join_with ''%20'' ss)"
    by (rule Strategy_requestTokenURL [OF sc1 assms(2)])
  show ?thesis
    by (simp add: u2 u1 js_or_def)
qed

theorem Strategy_twice_appends_twice_witness:
  "obj_get (fst (Strategy sample_OAuthStrategy
      (Some (fst (Strategy sample_OAuthStrategy
         (Some [(''consumerKey'', JStr ''key''), (''consumerSecret'', JStr ''secret''),
                (''scope'', JArr [JStr ''a'', JStr ''b''])]) ()))) ())) ''requestTokenURL''
     = JStr ''https://openapi.etsy.com/v2/oauth/request_token?scope=a%20b?scope=a%20b''
   \<and> obj_get (fst (Strategy sample_OAuthStrategy
         (Some [(''consumerKey'', JStr ''key''), (''consumerSecret'', JStr ''secret''),
                (''scope'', JArr [JStr ''a'', JStr ''b''])]) ())) ''requestTokenURL''
     = JStr ''https://openapi.etsy.com/v2/oauth/request_token?scope=a%20b''"
proof -
  let ?ob = "[(''consumerKey'', JStr ''key''), (''consumerSecret'', JStr ''secret''),
              (''scope'', JArr [JStr ''a'', JStr ''b''])]"
  have sc: "obj_get ?ob ''scope'' = JArr (map JStr [''a'', ''b''])"
    by (simp add: obj_get_def)
  have ne: "[''a'', ''b''] \<noteq> []" by simp
  have u: "obj_get ?ob ''requestTokenURL'' = JUndefined"
    by (simp add: obj_get_def)
  have one: "obj_get (fst (Strategy sample_OAuthStrategy (Some ?ob) ())) ''requestTokenURL''
             = JStr ''https://openapi.etsy.com/v2/oauth/request_token?scope=a%20b''"
    using Strategy_requestTokenURL [where OAuthStrategy = sample_OAuthStrategy
            and verify = "()", OF sc ne]
    by (simp add: u js_or_def)
  from Strategy_twice_appends_twice
         [where ?OAuthStrategy1.0 = sample_OAuthStrategy and ?OAuthStrategy2.0 = sample_OAuthStrategy
            and ?verify1.0 = "()" and ?verify2.0 = "()", OF sc ne]
  show ?thesis
    by (simp add: u one js_or_def)
qed

end
